theory Spec2Isabelle
  imports Complex_Main "HOL-Library.Sublist"
begin

section \<open>Python values, errors and backing files\<close>

text \<open>
  The two managers of \<^verbatim>\<open>simpliefied2.py\<close> keep no state of their own: everything lives in
  one backing file each. What \<^verbatim>\<open>json.load\<close> hands to the program is a tree of Python values;
  the program never declares a record type, so the values are modelled as they are.
  A JSON number is an exact rational here (no operation below depends on the binary64
  rounding of a stored number), and a string is its UTF-8 byte sequence.
\<close>

datatype pyval =
    PNone
  | PBool bool
  | PNum rat
  | PStr string
  | PList "pyval list"
  | PDict "(string \<times> pyval) list"

text \<open>The exceptions that the modelled code can raise, as values.\<close>

datatype py_error =
    JSONDecodeError
  | ParserError
  | TypeError
  | KeyError
  | IndexError
  | AttributeError
  | ValueError
  | NameError

text \<open>
  A backing file is absent, present with text that its reader rejects, or present with
  text that its reader accepts. The JSON and CSV codecs are libraries, not code of this
  repository: a readable file is identified with the value its reader returns, and a
  write stores the value handed to the writer.
\<close>

datatype 'a backing_file = Absent | Corrupt | Holds 'a

subsection \<open>The Python operations the managers use\<close>

text \<open>\<^verbatim>\<open>needle in haystack\<close> on two strings: the substring test.\<close>

fun contains :: "string \<Rightarrow> string \<Rightarrow> bool" where
  "contains needle [] = (needle = [])"
| "contains needle (c # cs) = (prefix needle (c # cs) \<or> contains needle cs)"

text \<open>
  \<^verbatim>\<open>s in v\<close> for a string \<open>s\<close>: key test on a dict, element test on a list, substring test
  on a string, \<^verbatim>\<open>TypeError\<close> on everything else.
\<close>

fun py_in :: "string \<Rightarrow> pyval \<Rightarrow> py_error + bool" where
  "py_in s (PDict kvs) = Inr (s \<in> set (map fst kvs))"
| "py_in s (PList xs) = Inr (PStr s \<in> set xs)"
| "py_in s (PStr t) = Inr (contains s t)"
| "py_in s PNone = Inl TypeError"
| "py_in s (PBool b) = Inl TypeError"
| "py_in s (PNum q) = Inl TypeError"

text \<open>A dict keeps insertion order: an existing key keeps its place, a new one goes last.\<close>

fun dict_set :: "(string \<times> pyval) list \<Rightarrow> string \<Rightarrow> pyval \<Rightarrow> (string \<times> pyval) list" where
  "dict_set [] k x = [(k, x)]"
| "dict_set ((k', v) # kvs) k x =
     (if k' = k then (k, x) # kvs else (k', v) # dict_set kvs k x)"

text \<open>\<^verbatim>\<open>v[k] = x\<close> with a string key: only a dict supports it.\<close>

fun py_setitem :: "pyval \<Rightarrow> string \<Rightarrow> pyval \<Rightarrow> py_error + pyval" where
  "py_setitem (PDict kvs) k x = Inr (PDict (dict_set kvs k x))"
| "py_setitem (PList xs) k x = Inl TypeError"
| "py_setitem (PStr t) k x = Inl TypeError"
| "py_setitem PNone k x = Inl TypeError"
| "py_setitem (PBool b) k x = Inl TypeError"
| "py_setitem (PNum q) k x = Inl TypeError"

text \<open>\<^verbatim>\<open>v[k]\<close> with a string key: \<^verbatim>\<open>KeyError\<close> on a dict without it, \<^verbatim>\<open>TypeError\<close> elsewhere.\<close>

fun py_getitem :: "pyval \<Rightarrow> string \<Rightarrow> py_error + pyval" where
  "py_getitem (PDict kvs) k = (case map_of kvs k of None \<Rightarrow> Inl KeyError | Some v \<Rightarrow> Inr v)"
| "py_getitem (PList xs) k = Inl TypeError"
| "py_getitem (PStr t) k = Inl TypeError"
| "py_getitem PNone k = Inl TypeError"
| "py_getitem (PBool b) k = Inl TypeError"
| "py_getitem (PNum q) k = Inl TypeError"

text \<open>The characters of a string are its code points: one to four bytes each in UTF-8.\<close>

definition lead_len :: "char \<Rightarrow> nat" where
  "lead_len c =
     (let n = (of_char c :: nat)
      in if n < 0xC0 then 1 else if n < 0xE0 then 2 else if n < 0xF0 then 3 else 4)"

fun code_points :: "string \<Rightarrow> string list" where
  "code_points [] = []"
| "code_points (c # cs) =
     (c # take (lead_len c - 1) cs) # code_points (drop (lead_len c - 1) cs)"

text \<open>
  \<^verbatim>\<open>for x in v\<close>: the elements of a list, the keys of a dict, the characters of a string;
  nothing else is iterable.
\<close>

fun py_iter :: "pyval \<Rightarrow> py_error + pyval list" where
  "py_iter (PList xs) = Inr xs"
| "py_iter (PDict kvs) = Inr (map (\<lambda>kv. PStr (fst kv)) kvs)"
| "py_iter (PStr t) = Inr (map PStr (code_points t))"
| "py_iter PNone = Inl TypeError"
| "py_iter (PBool b) = Inl TypeError"
| "py_iter (PNum q) = Inl TypeError"

text \<open>Truth value of a Python object, as \<^verbatim>\<open>not\<close> and \<^verbatim>\<open>if\<close> take it.\<close>

fun truthy :: "pyval \<Rightarrow> bool" where
  "truthy PNone = False"
| "truthy (PBool b) = b"
| "truthy (PNum q) = (q \<noteq> 0)"
| "truthy (PStr t) = (t \<noteq> [])"
| "truthy (PList xs) = (xs \<noteq> [])"
| "truthy (PDict kvs) = (kvs \<noteq> [])"

text \<open>A loop body run over a list, stopping at the first exception.\<close>

fun for_each :: "('a \<Rightarrow> py_error + 'b) \<Rightarrow> 'a list \<Rightarrow> py_error + 'b list" where
  "for_each f [] = Inr []"
| "for_each f (x # xs) =
     (case f x of
        Inl e \<Rightarrow> Inl e
      | Inr y \<Rightarrow> (case for_each f xs of Inl e \<Rightarrow> Inl e | Inr ys \<Rightarrow> Inr (y # ys)))"

section \<open>ReminderManager\<close>

text \<open>
  The body of the loop in \<^verbatim>\<open>load\<close>:
  \<^verbatim>\<open>if "completed" not in task: task["completed"] = False\<close>.
\<close>

definition default_completed :: "pyval \<Rightarrow> py_error + pyval" where
  "default_completed task =
     (case py_in ''completed'' task of
        Inl e \<Rightarrow> Inl e
      | Inr present \<Rightarrow>
          if \<not> present then py_setitem task ''completed'' (PBool False) else Inr task)"

text \<open>
  \<^verbatim>\<open>for task in data: ...; return data\<close>. The elements of a list are objects that the body
  updates in place, so the returned list holds the updated elements. The keys of a dict
  and the characters of a string are immutable strings: the body either leaves them alone
  or raises, and \<open>data\<close> is returned as it was read.
\<close>

definition load_loop :: "pyval \<Rightarrow> py_error + pyval" where
  "load_loop data =
     (case data of
        PList xs \<Rightarrow>
          (case for_each default_completed xs of
             Inl e \<Rightarrow> Inl e
           | Inr ys \<Rightarrow> Inr (PList ys))
      | _ \<Rightarrow>
          (case py_iter data of
             Inl e \<Rightarrow> Inl e
           | Inr ts \<Rightarrow>
               (case for_each default_completed ts of
                  Inl e \<Rightarrow> Inl e
                | Inr _ \<Rightarrow> Inr data)))"

text \<open>
  \<^verbatim>\<open>ReminderManager.load\<close>: only \<^verbatim>\<open>FileNotFoundError\<close> is caught. The file is opened for
  reading, so the state that comes back is the state that went in.
\<close>

definition ReminderManager_load :: "pyval backing_file \<Rightarrow> (py_error + pyval) \<times> pyval backing_file" where
  "ReminderManager_load f =
     (case f of
        Absent \<Rightarrow> (Inr (PList []), f)
      | Corrupt \<Rightarrow> (Inl JSONDecodeError, f)
      | Holds data \<Rightarrow> (load_loop data, f))"

text \<open>\<^verbatim>\<open>ReminderManager.save\<close>: the file is opened for writing and the whole value dumped.\<close>

definition ReminderManager_save :: "pyval \<Rightarrow> pyval backing_file \<Rightarrow> pyval backing_file" where
  "ReminderManager_save tasks f = Holds tasks"

subsection \<open>Adding a reminder\<close>

text \<open>
  \<^verbatim>\<open>str.strip()\<close> removes the white space characters of Unicode from both ends. In UTF-8
  they are the byte sequences below (U+0009..U+000D, U+001C..U+0020, U+0085, U+00A0,
  U+1680, U+2000..U+200A, U+2028, U+2029, U+202F, U+205F, U+3000).
\<close>

definition whitespace :: "string list" where
  "whitespace =
     [[CHR 0x09], [CHR 0x0A], [CHR 0x0B], [CHR 0x0C], [CHR 0x0D],
      [CHR 0x1C], [CHR 0x1D], [CHR 0x1E], [CHR 0x1F], [CHR 0x20],
      [CHR 0xC2, CHR 0x85], [CHR 0xC2, CHR 0xA0],
      [CHR 0xE1, CHR 0x9A, CHR 0x80],
      [CHR 0xE2, CHR 0x80, CHR 0x80], [CHR 0xE2, CHR 0x80, CHR 0x81],
      [CHR 0xE2, CHR 0x80, CHR 0x82], [CHR 0xE2, CHR 0x80, CHR 0x83],
      [CHR 0xE2, CHR 0x80, CHR 0x84], [CHR 0xE2, CHR 0x80, CHR 0x85],
      [CHR 0xE2, CHR 0x80, CHR 0x86], [CHR 0xE2, CHR 0x80, CHR 0x87],
      [CHR 0xE2, CHR 0x80, CHR 0x88], [CHR 0xE2, CHR 0x80, CHR 0x89],
      [CHR 0xE2, CHR 0x80, CHR 0x8A],
      [CHR 0xE2, CHR 0x80, CHR 0xA8], [CHR 0xE2, CHR 0x80, CHR 0xA9],
      [CHR 0xE2, CHR 0x80, CHR 0xAF],
      [CHR 0xE2, CHR 0x81, CHR 0x9F],
      [CHR 0xE3, CHR 0x80, CHR 0x80]]"

text \<open>Dropping, from the front, every leading occurrence of one of the sequences \<open>ws\<close>.\<close>

function strip_leading :: "string list \<Rightarrow> string \<Rightarrow> string" where
  "strip_leading ws s =
     (case find (\<lambda>w. w \<noteq> [] \<and> prefix w s) ws of
        None \<Rightarrow> s
      | Some w \<Rightarrow> strip_leading ws (drop (length w) s))"
  by pat_completeness auto
termination
proof (relation "measure (\<lambda>(ws, s). length s)")
  show "wf (measure (\<lambda>(ws, s). length s))"
    by simp
next
  fix ws :: "string list" and s w :: string
  assume "find (\<lambda>w. w \<noteq> [] \<and> prefix w s) ws = Some w"
  then have "w \<noteq> []" and "prefix w s"
    by (auto simp: find_Some_iff)
  then have "s \<noteq> []"
    by auto
  with \<open>w \<noteq> []\<close> show "((ws, drop (length w) s), (ws, s)) \<in> measure (\<lambda>(ws, s). length s)"
    by simp
qed

declare strip_leading.simps [simp del]

definition lstrip :: "string \<Rightarrow> string" where
  "lstrip s = strip_leading whitespace s"

definition rstrip :: "string \<Rightarrow> string" where
  "rstrip s = rev (strip_leading (map rev whitespace) (rev s))"

definition strip :: "string \<Rightarrow> string" where
  "strip s = rstrip (lstrip s)"

text \<open>\<^verbatim>\<open>tasks.append(x)\<close>: only a list has the method.\<close>

fun py_append :: "pyval \<Rightarrow> pyval \<Rightarrow> py_error + pyval" where
  "py_append (PList xs) x = Inr (PList (xs @ [x]))"
| "py_append (PDict kvs) x = Inl AttributeError"
| "py_append (PStr t) x = Inl AttributeError"
| "py_append PNone x = Inl AttributeError"
| "py_append (PBool b) x = Inl AttributeError"
| "py_append (PNum q) x = Inl AttributeError"

text \<open>The dict literal that \<^verbatim>\<open>add\<close> appends.\<close>

definition new_reminder :: "string \<Rightarrow> string \<Rightarrow> pyval" where
  "new_reminder task_text date_time =
     PDict [(''task'', PStr (strip task_text)),
            (''time'', PStr date_time),
            (''completed'', PBool False)]"

text \<open>\<^verbatim>\<open>ReminderManager.add\<close>: load, append, save; an exception leaves the file alone.\<close>

definition ReminderManager_add ::
    "string \<Rightarrow> string \<Rightarrow> pyval backing_file \<Rightarrow> (py_error + unit) \<times> pyval backing_file" where
  "ReminderManager_add task_text date_time f =
     (case ReminderManager_load f of
        (Inl e, f1) \<Rightarrow> (Inl e, f1)
      | (Inr tasks, f1) \<Rightarrow>
          (case py_append tasks (new_reminder task_text date_time) of
             Inl e \<Rightarrow> (Inl e, f1)
           | Inr tasks' \<Rightarrow> (Inr (), ReminderManager_save tasks' f1)))"

text \<open>A sequence of \<^verbatim>\<open>add\<close> calls, each given as (task text, time text); the first exception ends it.\<close>

fun add_calls ::
    "(string \<times> string) list \<Rightarrow> pyval backing_file \<Rightarrow> (py_error + unit) \<times> pyval backing_file" where
  "add_calls [] f = (Inr (), f)"
| "add_calls ((task_text, date_time) # calls) f =
     (case ReminderManager_add task_text date_time f of
        (Inl e, f1) \<Rightarrow> (Inl e, f1)
      | (Inr u, f1) \<Rightarrow> add_calls calls f1)"

subsection \<open>Due reminders\<close>

text \<open>
  \<^verbatim>\<open>datetime.datetime\<close>, naive: compared field by field, most significant first.
\<close>

record datetime =
  year :: nat
  month :: nat
  day :: nat
  hour :: nat
  minute :: nat
  second :: nat
  microsecond :: nat

fun lex_le :: "nat list \<Rightarrow> nat list \<Rightarrow> bool" where
  "lex_le [] ys = True"
| "lex_le (x # xs) [] = False"
| "lex_le (x # xs) (y # ys) = (x < y \<or> (x = y \<and> lex_le xs ys))"

definition datetime_le :: "datetime \<Rightarrow> datetime \<Rightarrow> bool" where
  "datetime_le a b =
     lex_le [year a, month a, day a, hour a, minute a, second a, microsecond a]
            [year b, month b, day b, hour b, minute b, second b, microsecond b]"

text \<open>\<^verbatim>\<open>a.date() <= b.date()\<close>: the calendar dates alone.\<close>

definition date_le :: "datetime \<Rightarrow> datetime \<Rightarrow> bool" where
  "date_le a b = lex_le [year a, month a, day a] [year b, month b, day b]"

text \<open>
  \<^verbatim>\<open>datetime.strptime\<close> compiles the format to a regular expression, matches it at the
  start of the text, and rejects text left over. The directives used are
  \<^verbatim>\<open>%Y = \d\d\d\d\<close>, \<^verbatim>\<open>%m = 1[0-2]|0[1-9]|[1-9]\<close>,
  \<^verbatim>\<open>%d = 3[0-1]|[1-2]\d|0[1-9]|[1-9]| [1-9]\<close>, \<^verbatim>\<open>%H = 2[0-3]|[0-1]\d|\d\<close>,
  \<^verbatim>\<open>%M = [0-5]\d|\d\<close>, and a blank of the format is \<^verbatim>\<open>\s+\<close>.
  An alternative is a list of character classes, a directive a list of alternatives tried
  in order. Every directive here is followed by a literal that no digit matches or by the
  end of the pattern, so the first alternative that matches is the one the regular
  expression engine settles on.

  A class is a bracket of ASCII characters or \<^verbatim>\<open>\d\<close>. On text, \<^verbatim>\<open>\d\<close> matches every decimal
  digit of the Unicode database, and \<^verbatim>\<open>int\<close> reads each with its value. The database
  groups these digits in runs of ten consecutive code points, 0 to 9; which runs exist
  depends on the interpreter's version, so the parser takes them as the parameter
  \<open>zeros\<close>: the code point of the zero of every run beyond ASCII.
\<close>

definition digits :: string where
  "digits = ''0123456789''"

definition nonzero :: string where
  "nonzero = ''123456789''"

definition digit_val :: "char \<Rightarrow> nat" where
  "digit_val c = of_char c - 48"

datatype char_class = OneOf string | Decimal

text \<open>The first character of a text as a code point, and the text after it.\<close>

definition utf8_head :: "string \<Rightarrow> (nat \<times> string) option" where
  "utf8_head s =
     (case s of
        [] \<Rightarrow> None
      | c # s' \<Rightarrow>
          (let n = lead_len c;
               lead = (of_char c :: nat)
                        - (if n = 1 then 0 else if n = 2 then 0xC0 else if n = 3 then 0xE0 else 0xF0)
           in if length s' < n - 1 then None
              else Some (foldl (\<lambda>cp x. cp * 64 + ((of_char x :: nat) - 0x80)) lead (take (n - 1) s'),
                         drop (n - 1) s')))"

text \<open>\<^verbatim>\<open>\d\<close>: one decimal digit, ASCII or of a run that starts at one of \<open>zeros\<close>, with its value.\<close>

definition decimal_digit :: "nat list \<Rightarrow> string \<Rightarrow> (nat \<times> string) option" where
  "decimal_digit zeros s =
     (case utf8_head s of
        None \<Rightarrow> None
      | Some (cp, s') \<Rightarrow>
          if cp < 0x80 then (if 48 \<le> cp \<and> cp \<le> 57 then Some (cp - 48, s') else None)
          else (case find (\<lambda>z. z \<le> cp \<and> cp < z + 10) zeros of
                  None \<Rightarrow> None
                | Some z \<Rightarrow> Some (cp - z, s')))"

text \<open>
  The decimal digits beyond ASCII in version 14.0 of the Unicode database, the one that
  Python 3.11 carries: 65 runs, from the Arabic-Indic digits at U+0660 on.
\<close>

definition unicode_14_zeros :: "nat list" where
  "unicode_14_zeros =
     [0x660, 0x6F0, 0x7C0, 0x966, 0x9E6, 0xA66, 0xAE6, 0xB66, 0xBE6, 0xC66, 0xCE6,
      0xD66, 0xDE6, 0xE50, 0xED0, 0xF20, 0x1040, 0x1090, 0x17E0, 0x1810, 0x1946,
      0x19D0, 0x1A80, 0x1A90, 0x1B50, 0x1BB0, 0x1C40, 0x1C50, 0xA620, 0xA8D0, 0xA900,
      0xA9D0, 0xA9F0, 0xAA50, 0xABF0, 0xFF10, 0x104A0, 0x10D30, 0x11066, 0x110F0,
      0x11136, 0x111D0, 0x112F0, 0x11450, 0x114D0, 0x11650, 0x116C0, 0x11730, 0x118E0,
      0x11950, 0x11C50, 0x11D50, 0x11DA0, 0x16A60, 0x16AC0, 0x16B50, 0x1D7CE, 0x1D7D8,
      0x1D7E2, 0x1D7EC, 0x1D7F6, 0x1E140, 0x1E2F0, 0x1E950, 0x1FBF0]"

text \<open>
  One class against the head of the text: the digit values it read (none for a blank)
  and the text after it.
\<close>

fun match_class :: "nat list \<Rightarrow> char_class \<Rightarrow> string \<Rightarrow> (nat list \<times> string) option" where
  "match_class zeros (OneOf cs) [] = None"
| "match_class zeros (OneOf cs) (c # s) =
     (if c \<in> set cs then Some (if c \<in> set digits then [digit_val c] else [], s) else None)"
| "match_class zeros Decimal s =
     (case decimal_digit zeros s of None \<Rightarrow> None | Some (v, s') \<Rightarrow> Some ([v], s'))"

fun match_alt :: "nat list \<Rightarrow> char_class list \<Rightarrow> string \<Rightarrow> (nat list \<times> string) option" where
  "match_alt zeros [] s = Some ([], s)"
| "match_alt zeros (cls # rest) s =
     (case match_class zeros cls s of
        None \<Rightarrow> None
      | Some (vs, s') \<Rightarrow>
          (case match_alt zeros rest s' of None \<Rightarrow> None | Some (ws, s'') \<Rightarrow> Some (vs @ ws, s'')))"

fun first_alt ::
    "nat list \<Rightarrow> char_class list list \<Rightarrow> string \<Rightarrow> (nat list \<times> string) option" where
  "first_alt zeros [] s = None"
| "first_alt zeros (alt # alts) s =
     (case match_alt zeros alt s of None \<Rightarrow> first_alt zeros alts s | Some r \<Rightarrow> Some r)"

text \<open>\<^verbatim>\<open>int(text)\<close> on a matched group: the digits read in base ten, blanks ignored.\<close>

definition int_of_group :: "nat list \<Rightarrow> nat" where
  "int_of_group vs = foldl (\<lambda>n v. 10 * n + v) 0 vs"

definition directive ::
    "nat list \<Rightarrow> char_class list list \<Rightarrow> string \<Rightarrow> (nat \<times> string) option" where
  "directive zeros alts s =
     (case first_alt zeros alts s of None \<Rightarrow> None | Some (vs, s') \<Rightarrow> Some (int_of_group vs, s'))"

definition re_Y :: "nat list \<Rightarrow> string \<Rightarrow> (nat \<times> string) option" where
  "re_Y zeros = directive zeros [[Decimal, Decimal, Decimal, Decimal]]"

definition re_m :: "nat list \<Rightarrow> string \<Rightarrow> (nat \<times> string) option" where
  "re_m zeros =
     directive zeros [[OneOf ''1'', OneOf ''012''], [OneOf ''0'', OneOf nonzero], [OneOf nonzero]]"

definition re_d :: "nat list \<Rightarrow> string \<Rightarrow> (nat \<times> string) option" where
  "re_d zeros =
     directive zeros
       [[OneOf ''3'', OneOf ''01''], [OneOf ''12'', Decimal], [OneOf ''0'', OneOf nonzero],
        [OneOf nonzero], [OneOf '' '', OneOf nonzero]]"

definition re_H :: "nat list \<Rightarrow> string \<Rightarrow> (nat \<times> string) option" where
  "re_H zeros = directive zeros [[OneOf ''2'', OneOf ''0123''], [OneOf ''01'', Decimal], [Decimal]]"

definition re_M :: "nat list \<Rightarrow> string \<Rightarrow> (nat \<times> string) option" where
  "re_M zeros = directive zeros [[OneOf ''012345'', Decimal], [Decimal]]"

definition literal :: "char \<Rightarrow> string \<Rightarrow> string option" where
  "literal c s = (case s of [] \<Rightarrow> None | c' # s' \<Rightarrow> if c' = c then Some s' else None)"

text \<open>\<^verbatim>\<open>\s+\<close>: one white space character, then as many more as follow.\<close>

definition spaces :: "string \<Rightarrow> string option" where
  "spaces s = (let s' = lstrip s in if s' = s then None else Some s')"

text \<open>The calendar check of the \<^verbatim>\<open>datetime\<close> constructor.\<close>

definition is_leap :: "nat \<Rightarrow> bool" where
  "is_leap y = (y mod 4 = 0 \<and> (y mod 400 = 0 \<or> y mod 100 \<noteq> 0))"

definition days_in_month :: "nat \<Rightarrow> nat \<Rightarrow> nat" where
  "days_in_month y m =
     (if m = 2 then (if is_leap y then 29 else 28)
      else if m \<in> {4, 6, 9, 11} then 30 else 31)"

definition valid_date :: "nat \<Rightarrow> nat \<Rightarrow> nat \<Rightarrow> bool" where
  "valid_date y m d = (1 \<le> y \<and> 1 \<le> m \<and> m \<le> 12 \<and> 1 \<le> d \<and> d \<le> days_in_month y m)"

text \<open>The date part \<^verbatim>\<open>%Y-%m-%d\<close>, common to both formats.\<close>

definition match_date :: "nat list \<Rightarrow> string \<Rightarrow> ((nat \<times> nat \<times> nat) \<times> string) option" where
  "match_date zeros s =
     (case re_Y zeros s of None \<Rightarrow> None | Some (y, s1) \<Rightarrow>
      (case literal CHR ''-'' s1 of None \<Rightarrow> None | Some s2 \<Rightarrow>
       (case re_m zeros s2 of None \<Rightarrow> None | Some (m, s3) \<Rightarrow>
        (case literal CHR ''-'' s3 of None \<Rightarrow> None | Some s4 \<Rightarrow>
         (case re_d zeros s4 of None \<Rightarrow> None | Some (d, s5) \<Rightarrow> Some ((y, m, d), s5))))))"

text \<open>\<^verbatim>\<open>strptime(text, "%Y-%m-%d %H:%M")\<close>; \<open>None\<close> is the \<^verbatim>\<open>ValueError\<close>.\<close>

definition strptime_datetime :: "nat list \<Rightarrow> string \<Rightarrow> datetime option" where
  "strptime_datetime zeros s =
     (case match_date zeros s of None \<Rightarrow> None | Some ((y, m, d), s1) \<Rightarrow>
      (case spaces s1 of None \<Rightarrow> None | Some s2 \<Rightarrow>
       (case re_H zeros s2 of None \<Rightarrow> None | Some (h, s3) \<Rightarrow>
        (case literal CHR '':'' s3 of None \<Rightarrow> None | Some s4 \<Rightarrow>
         (case re_M zeros s4 of None \<Rightarrow> None | Some (mi, s5) \<Rightarrow>
            if s5 = [] \<and> valid_date y m d
            then Some \<lparr>year = y, month = m, day = d, hour = h, minute = mi,
                       second = 0, microsecond = 0\<rparr>
            else None)))))"

text \<open>\<^verbatim>\<open>strptime(text, "%Y-%m-%d")\<close>.\<close>

definition strptime_date :: "nat list \<Rightarrow> string \<Rightarrow> datetime option" where
  "strptime_date zeros s =
     (case match_date zeros s of None \<Rightarrow> None | Some ((y, m, d), s1) \<Rightarrow>
        if s1 = [] \<and> valid_date y m d
        then Some \<lparr>year = y, month = m, day = d, hour = 0, minute = 0,
                   second = 0, microsecond = 0\<rparr>
        else None)"

text \<open>Applied to a Python value: anything but a string is a \<^verbatim>\<open>TypeError\<close>.\<close>

fun py_strptime :: "(string \<Rightarrow> datetime option) \<Rightarrow> pyval \<Rightarrow> py_error + datetime" where
  "py_strptime parse (PStr t) = (case parse t of None \<Rightarrow> Inl ValueError | Some dt \<Rightarrow> Inr dt)"
| "py_strptime parse (PList xs) = Inl TypeError"
| "py_strptime parse (PDict kvs) = Inl TypeError"
| "py_strptime parse PNone = Inl TypeError"
| "py_strptime parse (PBool b) = Inl TypeError"
| "py_strptime parse (PNum q) = Inl TypeError"

text \<open>
  The two \<^verbatim>\<open>try\<close> blocks of \<^verbatim>\<open>check_reminders\<close>. Each returns the notifications it leaves
  behind, or the exception raised inside it; \<^verbatim>\<open>task["task"]\<close> is evaluated before the
  \<^verbatim>\<open>append\<close>, so an exception leaves the list as it was.
\<close>

definition try_datetime :: "nat list \<Rightarrow> datetime \<Rightarrow> pyval \<Rightarrow> pyval list \<Rightarrow> py_error + pyval list" where
  "try_datetime zeros now task notifications =
     (case py_getitem task ''time'' of Inl e \<Rightarrow> Inl e | Inr t \<Rightarrow>
      (case py_strptime (strptime_datetime zeros) t of Inl e \<Rightarrow> Inl e | Inr task_time \<Rightarrow>
         if datetime_le task_time now
         then (case py_getitem task ''task'' of
                 Inl e \<Rightarrow> Inl e
               | Inr x \<Rightarrow> Inr (notifications @ [x]))
         else Inr notifications))"

definition try_date :: "nat list \<Rightarrow> datetime \<Rightarrow> pyval \<Rightarrow> pyval list \<Rightarrow> py_error + pyval list" where
  "try_date zeros now task notifications =
     (case py_getitem task ''time'' of Inl e \<Rightarrow> Inl e | Inr t \<Rightarrow>
      (case py_strptime (strptime_date zeros) t of Inl e \<Rightarrow> Inl e | Inr task_time \<Rightarrow>
         if date_le task_time now
         then (case py_getitem task ''task'' of
                 Inl e \<Rightarrow> Inl e
               | Inr x \<Rightarrow> Inr (notifications @ [x]))
         else Inr notifications))"

text \<open>
  One pass of the loop body. \<^verbatim>\<open>task["completed"]\<close> stands outside the \<^verbatim>\<open>try\<close>: its
  exception propagates. Both \<^verbatim>\<open>except:\<close> clauses are bare and catch everything.
\<close>

definition check_task :: "nat list \<Rightarrow> datetime \<Rightarrow> pyval \<Rightarrow> pyval list \<Rightarrow> py_error + pyval list" where
  "check_task zeros now task notifications =
     (case py_getitem task ''completed'' of
        Inl e \<Rightarrow> Inl e
      | Inr c \<Rightarrow>
          if \<not> truthy c
          then (case try_datetime zeros now task notifications of
                  Inr ns \<Rightarrow> Inr ns
                | Inl e1 \<Rightarrow>
                    (case try_date zeros now task notifications of
                       Inr ns \<Rightarrow> Inr ns
                     | Inl e2 \<Rightarrow> Inr notifications))
          else Inr notifications)"

fun check_loop :: "nat list \<Rightarrow> datetime \<Rightarrow> pyval list \<Rightarrow> pyval list \<Rightarrow> py_error + pyval list" where
  "check_loop zeros now [] notifications = Inr notifications"
| "check_loop zeros now (task # tasks) notifications =
     (case check_task zeros now task notifications of
        Inl e \<Rightarrow> Inl e
      | Inr ns \<Rightarrow> check_loop zeros now tasks ns)"

text \<open>
  \<^verbatim>\<open>ReminderManager.check_reminders\<close>; the clock reading \<^verbatim>\<open>datetime.now()\<close> is the
  argument \<open>now\<close>, the digit runs of the interpreter the argument \<open>zeros\<close>.
\<close>

definition ReminderManager_check_reminders ::
    "nat list \<Rightarrow> datetime \<Rightarrow> pyval backing_file
       \<Rightarrow> (py_error + pyval list) \<times> pyval backing_file" where
  "ReminderManager_check_reminders zeros now f =
     (case ReminderManager_load f of
        (Inl e, f1) \<Rightarrow> (Inl e, f1)
      | (Inr tasks, f1) \<Rightarrow>
          (case py_iter tasks of
             Inl e \<Rightarrow> (Inl e, f1)
           | Inr ts \<Rightarrow> (check_loop zeros now ts [], f1)))"

section \<open>ExpenseManager\<close>

text \<open>
  The table that \<^verbatim>\<open>pd.read_csv\<close> returns for a file the store wrote: one row per expense
  under the columns \<^verbatim>\<open>Item\<close>, \<^verbatim>\<open>Amount\<close>, \<^verbatim>\<open>Date\<close>, indexed 0, 1, 2, ... The amounts are
  binary64 numbers. A finite binary64 number is a rational number, and \<open>Amount\<close> holds
  that rational: comparing two amounts and formatting one are functions of it. The
  values that are no numbers (not-a-number, the infinities) and the sign of zero have no
  counterpart here; the amounts of the data model are non-negative decimal values.
\<close>

record expense =
  Item :: string
  Amount :: rat
  Date :: string

type_synonym dataframe = "expense list"

text \<open>
  \<^verbatim>\<open>ExpenseManager.load\<close>: an absent file gives \<^verbatim>\<open>pd.DataFrame(columns=["Item", "Amount",
  "Date"])\<close>, the table with these columns and no row; any other exception of the reader
  propagates.
\<close>

definition ExpenseManager_load ::
    "dataframe backing_file \<Rightarrow> (py_error + dataframe) \<times> dataframe backing_file" where
  "ExpenseManager_load f =
     (case f of
        Absent \<Rightarrow> (Inr [], f)
      | Corrupt \<Rightarrow> (Inl ParserError, f)
      | Holds df \<Rightarrow> (Inr df, f))"

definition ExpenseManager_save :: "dataframe \<Rightarrow> dataframe backing_file \<Rightarrow> dataframe backing_file" where
  "ExpenseManager_save df f = Holds df"

text \<open>
  \<^verbatim>\<open>float(amount)\<close>. The grammar of a float literal is Python's own and enters as the
  parameter \<open>parse_float\<close>: a string it rejects is a \<^verbatim>\<open>ValueError\<close>. A number converts, a
  \<^verbatim>\<open>bool\<close> is the number 0 or 1, and everything else is a \<^verbatim>\<open>TypeError\<close>.
\<close>

fun py_float :: "(string \<Rightarrow> rat option) \<Rightarrow> pyval \<Rightarrow> py_error + rat" where
  "py_float parse_float (PNum q) = Inr q"
| "py_float parse_float (PBool b) = Inr (if b then 1 else 0)"
| "py_float parse_float (PStr t) =
     (case parse_float t of None \<Rightarrow> Inl ValueError | Some q \<Rightarrow> Inr q)"
| "py_float parse_float PNone = Inl TypeError"
| "py_float parse_float (PList xs) = Inl TypeError"
| "py_float parse_float (PDict kvs) = Inl TypeError"

text \<open>
  \<^verbatim>\<open>ExpenseManager.add\<close>: the table is loaded first, the new row is built next (this is
  where \<^verbatim>\<open>float(amount)\<close> runs), and only then is the file written.
\<close>

definition ExpenseManager_add ::
    "(string \<Rightarrow> rat option) \<Rightarrow> string \<Rightarrow> pyval \<Rightarrow> string \<Rightarrow> dataframe backing_file
       \<Rightarrow> (py_error + unit) \<times> dataframe backing_file" where
  "ExpenseManager_add parse_float item amount date_str f =
     (case ExpenseManager_load f of
        (Inl e, f1) \<Rightarrow> (Inl e, f1)
      | (Inr df, f1) \<Rightarrow>
          (case py_float parse_float amount of
             Inl e \<Rightarrow> (Inl e, f1)
           | Inr a \<Rightarrow>
               (Inr (),
                ExpenseManager_save (df @ [\<lparr>Item = item, Amount = a, Date = date_str\<rparr>]) f1)))"

subsection \<open>Formatting\<close>











subsection \<open>Spending insights\<close>











section \<open>Weather lookups\<close>

text \<open>\<^verbatim>\<open>d.get(k)\<close> on a value: \<^verbatim>\<open>None\<close> for a missing key, no such method off a dict.\<close>

fun py_get :: "pyval \<Rightarrow> string \<Rightarrow> py_error + pyval" where
  "py_get (PDict kvs) k = (case map_of kvs k of None \<Rightarrow> Inr PNone | Some v \<Rightarrow> Inr v)"
| "py_get (PList xs) k = Inl AttributeError"
| "py_get (PStr t) k = Inl AttributeError"
| "py_get PNone k = Inl AttributeError"
| "py_get (PBool b) k = Inl AttributeError"
| "py_get (PNum q) k = Inl AttributeError"

text \<open>\<^verbatim>\<open>v[0]\<close>: the first element of a list or the first character of a string.\<close>

fun py_first :: "pyval \<Rightarrow> py_error + pyval" where
  "py_first (PList xs) = (case xs of [] \<Rightarrow> Inl IndexError | x # rest \<Rightarrow> Inr x)"
| "py_first (PStr t) = (case code_points t of [] \<Rightarrow> Inl IndexError | c # rest \<Rightarrow> Inr (PStr c))"
| "py_first (PDict kvs) = Inl KeyError"
| "py_first PNone = Inl TypeError"
| "py_first (PBool b) = Inl TypeError"
| "py_first (PNum q) = Inl TypeError"

text \<open>
  \<^verbatim>\<open>str.title()\<close>: a cased letter is put in upper case after an uncased character and in
  lower case after a cased one. Only the letters of ASCII are treated as cased here (the
  provider's English descriptions have no others).
\<close>

definition is_lower :: "char \<Rightarrow> bool" where
  "is_lower c = (97 \<le> (of_char c :: nat) \<and> (of_char c :: nat) \<le> 122)"

definition is_upper :: "char \<Rightarrow> bool" where
  "is_upper c = (65 \<le> (of_char c :: nat) \<and> (of_char c :: nat) \<le> 90)"

fun title_from :: "bool \<Rightarrow> string \<Rightarrow> string" where
  "title_from cased [] = []"
| "title_from cased (c # s) =
     (if is_lower c
      then (if cased then c else char_of ((of_char c :: nat) - 32)) # title_from True s
      else if is_upper c
      then (if cased then char_of ((of_char c :: nat) + 32) else c) # title_from True s
      else c # title_from False s)"

fun py_title :: "pyval \<Rightarrow> py_error + string" where
  "py_title (PStr t) = Inr (title_from False t)"
| "py_title (PList xs) = Inl AttributeError"
| "py_title (PDict kvs) = Inl AttributeError"
| "py_title PNone = Inl AttributeError"
| "py_title (PBool b) = Inl AttributeError"
| "py_title (PNum q) = Inl AttributeError"

text \<open>\<^verbatim>\<open>weather_data['weather'][0][k]\<close>.\<close>

definition weather0 :: "pyval \<Rightarrow> string \<Rightarrow> py_error + pyval" where
  "weather0 weather_data k =
     (case py_getitem weather_data ''weather'' of Inl e \<Rightarrow> Inl e | Inr w \<Rightarrow>
      (case py_first w of Inl e \<Rightarrow> Inl e | Inr w0 \<Rightarrow> py_getitem w0 k))"

text \<open>\<^verbatim>\<open>weather_data['main'][k]\<close>.\<close>

definition main_field :: "pyval \<Rightarrow> string \<Rightarrow> py_error + pyval" where
  "main_field weather_data k =
     (case py_getitem weather_data ''main'' of Inl e \<Rightarrow> Inl e | Inr m \<Rightarrow> py_getitem m k)"

subsection \<open>The morning brief script\<close>

text \<open>
  The weather part of the script is straight-line code at module level: its variables are
  the module's globals, bound by assignment, and reading an unbound one is a \<^verbatim>\<open>NameError\<close>.
  A run is the list of \<^verbatim>\<open>print\<close> calls made (each with its arguments) and how it ended.
\<close>

type_synonym globals = "(string \<times> pyval) list"

definition read_var :: "globals \<Rightarrow> string \<Rightarrow> py_error + pyval" where
  "read_var g x = (case map_of g x of None \<Rightarrow> Inl NameError | Some v \<Rightarrow> Inr v)"

definition globe :: string where
  "globe = [CHR 0xF0, CHR 0x9F, CHR 0x8C, CHR 0x8D]"

definition degree :: string where
  "degree = [CHR 0xC2, CHR 0xB0]"

definition weather_emojis :: "(string \<times> string) list" where
  "weather_emojis =
     [(''Few Clouds'', [CHR 0xF0, CHR 0x9F, CHR 0x8C, CHR 0xA4, CHR 0xEF, CHR 0xB8, CHR 0x8F]),
      (''Clear'', [CHR 0xE2, CHR 0x98, CHR 0x80, CHR 0xEF, CHR 0xB8, CHR 0x8F]),
      (''Clear Sky'', [CHR 0xE2, CHR 0x98, CHR 0x80, CHR 0xEF, CHR 0xB8, CHR 0x8F]),
      (''Clouds'', [CHR 0xE2, CHR 0x98, CHR 0x81, CHR 0xEF, CHR 0xB8, CHR 0x8F]),
      (''Rain'', [CHR 0xF0, CHR 0x9F, CHR 0x8C, CHR 0xA7, CHR 0xEF, CHR 0xB8, CHR 0x8F]),
      (''Drizzle'', [CHR 0xF0, CHR 0x9F, CHR 0x8C, CHR 0xA6, CHR 0xEF, CHR 0xB8, CHR 0x8F]),
      (''Thunderstorm'', [CHR 0xE2, CHR 0x9B, CHR 0x88, CHR 0xEF, CHR 0xB8, CHR 0x8F]),
      (''Snow'', [CHR 0xE2, CHR 0x9D, CHR 0x84, CHR 0xEF, CHR 0xB8, CHR 0x8F]),
      (''Mist'', [CHR 0xF0, CHR 0x9F, CHR 0x8C, CHR 0xAB, CHR 0xEF, CHR 0xB8, CHR 0x8F]),
      (''Fog'', [CHR 0xF0, CHR 0x9F, CHR 0x8C, CHR 0x81]),
      (''Haze'', [CHR 0xF0, CHR 0x9F, CHR 0x8C, CHR 0xAB, CHR 0xEF, CHR 0xB8, CHR 0x8F]),
      (''Smog'', [CHR 0xF0, CHR 0x9F, CHR 0x92, CHR 0xA8])]"

text \<open>\<^verbatim>\<open>d.get(k, default)\<close> on a dict literal.\<close>

definition get_default :: "(string \<times> 'a) list \<Rightarrow> string \<Rightarrow> 'a \<Rightarrow> 'a" where
  "get_default d k dflt = (case map_of d k of None \<Rightarrow> dflt | Some v \<Rightarrow> v)"

text \<open>
  The \<^verbatim>\<open>if\<close>/\<^verbatim>\<open>else\<close> on the provider's status: the branch for a status other than 200 prints
  the message and binds nothing; the other branch binds three variables.
\<close>

definition weather_branch ::
    "pyval \<Rightarrow> pyval list list \<times> (py_error + globals)" where
  "weather_branch weather_data =
     (case py_get weather_data ''cod'' of
        Inl e \<Rightarrow> ([], Inl e)
      | Inr cod \<Rightarrow>
          if cod \<noteq> PNum 200
          then ([[PStr ''City not found! Please check spelling.'']], Inr [])
          else
            (case main_field weather_data ''temp'' of Inl e \<Rightarrow> ([], Inl e) | Inr temperature \<Rightarrow>
             (case weather0 weather_data ''description'' of Inl e \<Rightarrow> ([], Inl e) | Inr d \<Rightarrow>
              (case py_title d of Inl e \<Rightarrow> ([], Inl e) | Inr condition \<Rightarrow>
               (case weather0 weather_data ''main'' of Inl e \<Rightarrow> ([], Inl e) | Inr main_condition \<Rightarrow>
                  ([], Inr [(''temperature'', temperature),
                            (''condition'', PStr condition),
                            (''main_condition'', main_condition)]))))))"

text \<open>
  The statements after the \<^verbatim>\<open>if\<close>/\<^verbatim>\<open>else\<close>, run whichever branch was taken: the emoji
  lookup reads \<^verbatim>\<open>condition\<close>, the two \<^verbatim>\<open>print\<close> calls read \<^verbatim>\<open>temperature\<close> and \<^verbatim>\<open>condition\<close>.
\<close>

fun str_of :: "pyval \<Rightarrow> string option" where
  "str_of (PStr t) = Some t"
| "str_of v = None"

definition weather_report :: "globals \<Rightarrow> pyval list list \<times> (py_error + unit)" where
  "weather_report g =
     (case read_var g ''condition'' of Inl e \<Rightarrow> ([], Inl e) | Inr condition \<Rightarrow>
      (case str_of condition of None \<Rightarrow> ([], Inl TypeError) | Some c \<Rightarrow>
       (let emoji = get_default weather_emojis c globe
        in (case read_var g ''temperature'' of Inl e \<Rightarrow> ([], Inl e) | Inr temperature \<Rightarrow>
              ([[PStr ''Temperature:'', temperature, PStr (degree @ ''C'')],
                [PStr (''Condition: '' @ c @ '' '' @ emoji)]], Inr ())))))"

definition morning_brief_weather :: "pyval \<Rightarrow> pyval list list \<times> (py_error + unit)" where
  "morning_brief_weather weather_data =
     (case weather_branch weather_data of
        (out, Inl e) \<Rightarrow> (out, Inl e)
      | (out, Inr g) \<Rightarrow>
          (case weather_report g of (out', r) \<Rightarrow> (out @ out', r)))"

subsection \<open>The dashboard page\<close>

text \<open>
  What the page shows: \<^verbatim>\<open>st.metric(label, value)\<close> with the value in the pieces its f-string
  joins, \<^verbatim>\<open>st.write\<close> and \<^verbatim>\<open>st.error\<close>.
\<close>

datatype widget = Metric string "pyval list" | Write string | Error string

text \<open>
  The body of the \<^verbatim>\<open>try\<close>: \<open>response\<close> is what \<^verbatim>\<open>requests.get(url).json()\<close> returned or
  raised. All three fields are read before anything is shown.
\<close>

definition weather_try :: "py_error + pyval \<Rightarrow> py_error + widget list" where
  "weather_try response =
     (case response of Inl e \<Rightarrow> Inl e | Inr r \<Rightarrow>
      (case py_get r ''cod'' of Inl e \<Rightarrow> Inl e | Inr cod \<Rightarrow>
         if cod = PNum 200
         then
           (case main_field r ''temp'' of Inl e \<Rightarrow> Inl e | Inr temp \<Rightarrow>
            (case main_field r ''humidity'' of Inl e \<Rightarrow> Inl e | Inr humidity \<Rightarrow>
             (case weather0 r ''description'' of Inl e \<Rightarrow> Inl e | Inr d \<Rightarrow>
              (case py_title d of Inl e \<Rightarrow> Inl e | Inr condition \<Rightarrow>
                 Inr [Metric ''Temperature'' [temp, PStr (degree @ ''C'')],
                      Metric ''Humidity'' [humidity, PStr ''%''],
                      Write (''**Condition:** '' @ condition)]))))
         else Inr [Error ''City not found'']))"

text \<open>
  The weather part of \<^verbatim>\<open>show_weather_news\<close>: it runs when the button was pressed and the
  API key is set, and its bare \<^verbatim>\<open>except:\<close> turns every exception into a message.
\<close>

definition show_weather :: "bool \<Rightarrow> pyval \<Rightarrow> py_error + pyval \<Rightarrow> widget list" where
  "show_weather button api_key response =
     (if button \<and> truthy api_key
      then (case weather_try response of
              Inl e \<Rightarrow> [Error ''Weather service unavailable'']
            | Inr shown \<Rightarrow> shown)
      else [])"

section \<open>The stores as the specification describes them\<close>

text \<open>
  A reminder of the specification's data model: a task text, a time text, and a completed
  flag that an older file may lack (\<open>None\<close>). \<open>reminder_dict\<close> is the JSON object that stores
  it, with the keys in the order \<^verbatim>\<open>add\<close> writes them.
\<close>

record reminder =
  task :: string
  time :: string
  completed :: "bool option"

definition reminder_fields :: "reminder \<Rightarrow> (string \<times> pyval) list" where
  "reminder_fields r =
     [(''task'', PStr (task r)), (''time'', PStr (time r))]
       @ (case completed r of None \<Rightarrow> [] | Some b \<Rightarrow> [(''completed'', PBool b)])"

definition reminder_dict :: "reminder \<Rightarrow> pyval" where
  "reminder_dict r = PDict (reminder_fields r)"

text \<open>The specification's default: a missing \<^verbatim>\<open>completed\<close> reads as false.\<close>

definition defaulted :: "reminder \<Rightarrow> reminder" where
  "defaulted r = r\<lparr>completed := Some (case completed r of None \<Rightarrow> False | Some b \<Rightarrow> b)\<rparr>"

text \<open>The same default on an arbitrary JSON object.\<close>

definition with_completed :: "(string \<times> pyval) list \<Rightarrow> (string \<times> pyval) list" where
  "with_completed d =
     (if ''completed'' \<in> set (map fst d) then d else d @ [(''completed'', PBool False)])"

text \<open>
  Due, in the specification's words: the time parses as date and time and that instant is
  not after \<open>now\<close>, or it fails that parse, parses as a date, and that date is not after
  the date of \<open>now\<close>.
\<close>

definition due :: "nat list \<Rightarrow> datetime \<Rightarrow> string \<Rightarrow> bool" where
  "due zeros now t =
     (case strptime_datetime zeros t of
        Some instant \<Rightarrow> datetime_le instant now
      | None \<Rightarrow> (case strptime_date zeros t of Some d \<Rightarrow> date_le d now | None \<Rightarrow> False))"

definition incomplete :: "reminder \<Rightarrow> bool" where
  "incomplete r = (completed r \<noteq> Some True)"

text \<open>\<open>dueNow\<close> of the specification: the task texts of the due, incomplete reminders, in order.\<close>

definition dueNow :: "nat list \<Rightarrow> datetime \<Rightarrow> reminder list \<Rightarrow> string list" where
  "dueNow zeros now rs = map task (filter (\<lambda>r. incomplete r \<and> due zeros now (time r)) rs)"

text \<open>
  What the loop of \<^verbatim>\<open>load\<close> accepts. An element passes when the default can be set on it
  (an object) or the membership test already succeeds (an array with the element
  \<^verbatim>\<open>"completed"\<close>, a string with that substring). A top-level value passes when it is an
  array of such elements, an object whose keys all contain \<^verbatim>\<open>completed\<close>, or the empty
  string.
\<close>

fun element_ok :: "pyval \<Rightarrow> bool" where
  "element_ok (PDict kvs) = True"
| "element_ok (PList xs) = (PStr ''completed'' \<in> set xs)"
| "element_ok (PStr t) = contains ''completed'' t"
| "element_ok PNone = False"
| "element_ok (PBool b) = False"
| "element_ok (PNum q) = False"

fun loadable :: "pyval \<Rightarrow> bool" where
  "loadable (PList xs) = list_all element_ok xs"
| "loadable (PDict kvs) = list_all (\<lambda>kv. contains ''completed'' (fst kv)) kvs"
| "loadable (PStr t) = (t = [])"
| "loadable PNone = False"
| "loadable (PBool b) = False"
| "loadable (PNum q) = False"

text \<open>
  The year 2024 in Arabic-Indic digits (U+0662, U+0660, U+0662, U+0664), for the examples.
\<close>

definition arabic_indic_2024 :: string where
  "arabic_indic_2024 =
     [CHR 0xD9, CHR 0xA2, CHR 0xD9, CHR 0xA0, CHR 0xD9, CHR 0xA2, CHR 0xD9, CHR 0xA4]"

text \<open>A time text that neither format reads, and an object whose time is such a text.\<close>

definition unparseable :: "nat list \<Rightarrow> string \<Rightarrow> bool" where
  "unparseable zeros t = (strptime_datetime zeros t = None \<and> strptime_date zeros t = None)"

definition unreadable_time :: "nat list \<Rightarrow> (string \<times> pyval) list \<Rightarrow> bool" where
  "unreadable_time zeros d =
     (case map_of d ''time'' of Some (PStr t) \<Rightarrow> unparseable zeros t | _ \<Rightarrow> False)"




section \<open>Properties of the reminder store\<close>

subsection \<open>Loading\<close>

lemma dict_set_absent: "k \<notin> set (map fst d) \<Longrightarrow> dict_set d k x = d @ [(k, x)]"
  by (induction d) auto

lemma default_completed_dict: "default_completed (PDict d) = Inr (PDict (with_completed d))"
  by (simp add: default_completed_def with_completed_def dict_set_absent)

lemma for_each_dicts:
  "for_each default_completed (map (\<lambda>x. PDict (g x)) xs) =
     Inr (map (\<lambda>x. PDict (with_completed (g x))) xs)"
  by (induction xs) (simp_all add: default_completed_dict)

lemma load_dicts:
  "ReminderManager_load (Holds (PList (map PDict ds))) =
     (Inr (PList (map (\<lambda>d. PDict (with_completed d)) ds)), Holds (PList (map PDict ds)))"
  using for_each_dicts [of "\<lambda>d. d" ds]
  by (simp add: ReminderManager_load_def load_loop_def)

lemma with_completed_fields: "with_completed (reminder_fields r) = reminder_fields (defaulted r)"
  by (cases "completed r") (simp_all add: with_completed_def reminder_fields_def defaulted_def)

lemma load_reminders:
  "ReminderManager_load (Holds (PList (map reminder_dict rs))) =
     (Inr (PList (map (\<lambda>r. reminder_dict (defaulted r)) rs)),
      Holds (PList (map reminder_dict rs)))"
proof -
  have "for_each default_completed (map reminder_dict rs) =
          Inr (map (\<lambda>r. reminder_dict (defaulted r)) rs)"
    using for_each_dicts [of reminder_fields rs]
    by (simp add: reminder_dict_def [abs_def] with_completed_fields)
  then show ?thesis
    by (simp add: ReminderManager_load_def load_loop_def)
qed

text \<open>
  C8. With the backing file absent, \<^verbatim>\<open>load\<close> of either store returns the empty result (the
  empty list of reminders; the table with the columns \<^verbatim>\<open>Item\<close>, \<^verbatim>\<open>Amount\<close>, \<^verbatim>\<open>Date\<close> and no
  row), raises nothing, and leaves the file absent, so that a second call returns the same.
\<close>

theorem load_absent_is_empty:
  "ReminderManager_load Absent = (Inr (PList []), Absent)
   \<and> ReminderManager_load (snd (ReminderManager_load Absent)) = ReminderManager_load Absent
   \<and> ExpenseManager_load Absent = (Inr [], Absent)
   \<and> ExpenseManager_load (snd (ExpenseManager_load Absent)) = ExpenseManager_load Absent"
  by (simp add: ReminderManager_load_def ExpenseManager_load_def)

text \<open>
  C3. For every sequence of reminder records: after \<^verbatim>\<open>save\<close>, whatever the file held
  before, \<^verbatim>\<open>load\<close> returns the same sequence field for field, with \<^verbatim>\<open>completed\<close> set to
  false in the records that were saved without it.
\<close>

theorem save_load_roundtrip:
  "ReminderManager_load (ReminderManager_save (PList (map reminder_dict rs)) f) =
     (Inr (PList (map reminder_dict (map defaulted rs))), Holds (PList (map reminder_dict rs)))
   \<and> map task (map defaulted rs) = map task rs
   \<and> map time (map defaulted rs) = map time rs
   \<and> map completed (map defaulted rs) =
       map (\<lambda>r. Some (case completed r of None \<Rightarrow> False | Some b \<Rightarrow> b)) rs"
  by (simp add: ReminderManager_save_def load_reminders defaulted_def comp_def)

text \<open>
  C9. Every record that \<^verbatim>\<open>load\<close> returns from a stored list of reminders has its three
  fields: the task and the time as stored, and \<^verbatim>\<open>completed\<close> as stored or false when the
  stored record lacks it. The file itself is not touched by \<^verbatim>\<open>load\<close>; the default reaches
  it when the loaded list is saved.
\<close>

theorem load_populates_fields:
  "\<exists>loaded.
     ReminderManager_load (Holds (PList (map reminder_dict rs))) =
       (Inr (PList loaded), Holds (PList (map reminder_dict rs)))
     \<and> map (\<lambda>v. py_getitem v ''task'') loaded = map (\<lambda>r. Inr (PStr (task r))) rs
     \<and> map (\<lambda>v. py_getitem v ''time'') loaded = map (\<lambda>r. Inr (PStr (time r))) rs
     \<and> map (\<lambda>v. py_getitem v ''completed'') loaded =
         map (\<lambda>r. Inr (PBool (case completed r of None \<Rightarrow> False | Some b \<Rightarrow> b))) rs
     \<and> ReminderManager_save (PList loaded) (Holds (PList (map reminder_dict rs))) =
         Holds (PList (map reminder_dict (map defaulted rs)))"
proof -
  have "py_getitem (reminder_dict (defaulted r)) ''task'' = Inr (PStr (task r))"
    and "py_getitem (reminder_dict (defaulted r)) ''time'' = Inr (PStr (time r))"
    and "py_getitem (reminder_dict (defaulted r)) ''completed'' =
           Inr (PBool (case completed r of None \<Rightarrow> False | Some b \<Rightarrow> b))" for r
    by (simp_all add: reminder_dict_def reminder_fields_def defaulted_def)
  then show ?thesis
    by (simp add: load_reminders ReminderManager_save_def comp_def)
qed

subsection \<open>Adding\<close>

lemma with_completed_idem: "with_completed (with_completed d) = with_completed d"
  by (simp add: with_completed_def)

lemma default_completed_idem:
  assumes "default_completed x = Inr y"
  shows "default_completed y = Inr y"
proof (cases x)
  case (PDict d)
  with assms have "y = PDict (with_completed d)"
    by (simp add: default_completed_dict)
  then show ?thesis
    using default_completed_dict [of "with_completed d"] by (simp add: with_completed_idem)
qed (use assms in \<open>auto simp: default_completed_def split: if_splits\<close>)

lemma for_each_idem:
  "for_each default_completed xs = Inr ys \<Longrightarrow> for_each default_completed ys = Inr ys"
proof (induction xs arbitrary: ys)
  case Nil
  then show ?case by simp
next
  case (Cons x xs)
  then show ?case
    by (auto split: sum.splits dest: default_completed_idem)
qed

lemma for_each_append:
  "for_each f xs = Inr xs' \<Longrightarrow> for_each f ys = Inr ys' \<Longrightarrow>
     for_each f (xs @ ys) = Inr (xs' @ ys')"
  by (induction xs arbitrary: xs') (auto split: sum.splits)

lemma for_each_snoc:
  "for_each f xs = Inr ys \<Longrightarrow> f x = Inr y \<Longrightarrow> for_each f (xs @ [x]) = Inr (ys @ [y])"
  using for_each_append [of f xs ys "[x]" "[y]"] by simp

lemma for_each_new:
  "for_each default_completed (map (\<lambda>(t, d). new_reminder t d) calls) =
     Inr (map (\<lambda>(t, d). new_reminder t d) calls)"
  by (induction calls) (auto simp: default_completed_def new_reminder_def)

lemma default_completed_new: "default_completed (new_reminder t d) = Inr (new_reminder t d)"
  by (simp add: default_completed_def new_reminder_def)

lemma load_PList:
  "fst (ReminderManager_load f) = Inr (PList prior) \<Longrightarrow> for_each default_completed prior = Inr prior"
  by (cases f)
    (auto simp: ReminderManager_load_def load_loop_def split: pyval.splits sum.splits
      dest: for_each_idem)

lemma load_normal:
  "for_each default_completed ps = Inr ps \<Longrightarrow>
     ReminderManager_load (Holds (PList ps)) = (Inr (PList ps), Holds (PList ps))"
  by (simp add: ReminderManager_load_def load_loop_def)

lemma add_step:
  assumes "fst (ReminderManager_load f) = Inr (PList prior)"
  shows "ReminderManager_add t d f = (Inr (), Holds (PList (prior @ [new_reminder t d])))"
  using assms
  by (cases "ReminderManager_load f")
    (auto simp: ReminderManager_add_def ReminderManager_save_def)

lemma add_calls_normal:
  "for_each default_completed ps = Inr ps \<Longrightarrow>
     add_calls calls (Holds (PList ps)) =
       (Inr (), Holds (PList (ps @ map (\<lambda>(t, d). new_reminder t d) calls)))"
proof (induction calls arbitrary: ps)
  case Nil
  then show ?case by simp
next
  case (Cons c calls)
  obtain t d where c: "c = (t, d)" by (cases c)
  have n: "for_each default_completed (ps @ [new_reminder t d]) = Inr (ps @ [new_reminder t d])"
    using Cons.prems by (simp add: for_each_snoc default_completed_new)
  have "ReminderManager_add t d (Holds (PList ps)) = (Inr (), Holds (PList (ps @ [new_reminder t d])))"
    using Cons.prems by (simp add: add_step load_normal)
  then show ?case
    using Cons.IH [OF n] by (simp add: c)
qed

text \<open>
  C4, as the code has it. \<^verbatim>\<open>add\<close> only appends, in call order. From a store on which
  \<^verbatim>\<open>load\<close> returns the records \<open>prior\<close> (the file is absent, or holds an array that
  \<^verbatim>\<open>load\<close> accepts), any sequence of calls \<^verbatim>\<open>add(task, time)\<close> succeeds, and \<^verbatim>\<open>load\<close> then
  returns \<open>prior\<close> followed by one record per call, in call order, each with the task
  stripped of surrounding white space, the time as given, and \<^verbatim>\<open>completed\<close> false.
\<close>

theorem add_appends_in_order:
  assumes "fst (ReminderManager_load f) = Inr (PList prior)"
  shows "\<exists>f'. add_calls calls f = (Inr (), f')
           \<and> fst (ReminderManager_load f') =
               Inr (PList (prior @ map (\<lambda>(t, d). PDict [(''task'', PStr (strip t)),
                                                        (''time'', PStr d),
                                                        (''completed'', PBool False)]) calls))"
proof (cases calls)
  case Nil
  then show ?thesis using assms by simp
next
  case (Cons c rest)
  obtain t d where c: "c = (t, d)" by (cases c)
  have p: "for_each default_completed prior = Inr prior"
    using assms by (rule load_PList)
  have n: "for_each default_completed (prior @ [new_reminder t d]) = Inr (prior @ [new_reminder t d])"
    using p by (simp add: for_each_snoc default_completed_new)
  have a: "add_calls calls f =
        (Inr (), Holds (PList (prior @ map (\<lambda>(t, d). new_reminder t d) calls)))"
    using add_step [OF assms, of t d] add_calls_normal [OF n, of rest]
    by (simp add: Cons c)
  have "for_each default_completed (prior @ map (\<lambda>(t, d). new_reminder t d) calls) =
          Inr (prior @ map (\<lambda>(t, d). new_reminder t d) calls)"
    using p for_each_new by (rule for_each_append)
  then have "fst (ReminderManager_load (Holds (PList (prior @ map (\<lambda>(t, d). new_reminder t d) calls)))) =
          Inr (PList (prior @ map (\<lambda>(t, d). new_reminder t d) calls))"
    by (simp add: load_normal)
  with a show ?thesis
    by (simp add: new_reminder_def)
qed

text \<open>Two calls on a file that holds one older record, saved without \<^verbatim>\<open>completed\<close>.\<close>

theorem add_appends_in_order_example:
  "\<exists>f'. add_calls [(''  Call Mom  '', ''2024-01-01 09:00''), (''Pay rent'', ''2024-02-01'')]
            (Holds (PList [PDict [(''task'', PStr ''Old''), (''time'', PStr ''2023-12-31'')]])) =
          (Inr (), f')
        \<and> fst (ReminderManager_load f') =
            Inr (PList
              [PDict [(''task'', PStr ''Old''), (''time'', PStr ''2023-12-31''),
                      (''completed'', PBool False)],
               PDict [(''task'', PStr ''Call Mom''), (''time'', PStr ''2024-01-01 09:00''),
                      (''completed'', PBool False)],
               PDict [(''task'', PStr ''Pay rent''), (''time'', PStr ''2024-02-01''),
                      (''completed'', PBool False)]])"
proof -
  have s: "strip ''  Call Mom  '' = ''Call Mom''" "strip ''Pay rent'' = ''Pay rent''"
    by code_simp+
  have l: "fst (ReminderManager_load
                 (Holds (PList [PDict [(''task'', PStr ''Old''), (''time'', PStr ''2023-12-31'')]]))) =
           Inr (PList [PDict [(''task'', PStr ''Old''), (''time'', PStr ''2023-12-31''),
                              (''completed'', PBool False)]])"
    by (simp add: ReminderManager_load_def load_loop_def default_completed_def)
  show ?thesis
    using add_appends_in_order
      [OF l, of "[(''  Call Mom  '', ''2024-01-01 09:00''), (''Pay rent'', ''2024-02-01'')]"]
    by (simp add: s)
qed

text \<open>
  Not every state of the backing file is such a store: on a file that is not JSON,
  \<^verbatim>\<open>add\<close> calls \<^verbatim>\<open>load\<close>, the \<^verbatim>\<open>JSONDecodeError\<close> propagates, and nothing is appended.
\<close>

theorem add_on_malformed_file:
  "add_calls [(''Call Mom'', ''2024-01-01 09:00'')] Corrupt = (Inl JSONDecodeError, Corrupt)
   \<and> fst (ReminderManager_load Corrupt) = Inl JSONDecodeError"
  by (simp add: ReminderManager_add_def ReminderManager_load_def)

subsection \<open>When loading raises\<close>

lemma default_completed_ok: "element_ok x \<Longrightarrow> \<exists>y. default_completed x = Inr y"
  by (cases x) (simp_all add: default_completed_def)

lemma default_completed_not_ok: "\<not> element_ok x \<Longrightarrow> default_completed x = Inl TypeError"
  by (cases x) (simp_all add: default_completed_def)

lemma for_each_ok: "list_all element_ok xs \<Longrightarrow> \<exists>ys. for_each default_completed xs = Inr ys"
proof (induction xs)
  case Nil
  then show ?case by simp
next
  case (Cons x xs)
  then obtain y ys where "default_completed x = Inr y" "for_each default_completed xs = Inr ys"
    using default_completed_ok by fastforce
  then show ?case by simp
qed

lemma for_each_not_ok:
  "\<not> list_all element_ok xs \<Longrightarrow> for_each default_completed xs = Inl TypeError"
proof (induction xs)
  case Nil
  then show ?case by simp
next
  case (Cons x xs)
  show ?case
  proof (cases "element_ok x")
    case True
    then obtain y where "default_completed x = Inr y"
      using default_completed_ok by blast
    moreover have "for_each default_completed xs = Inl TypeError"
      using Cons True by simp
    ultimately show ?thesis by simp
  next
    case False
    then show ?thesis by (simp add: default_completed_not_ok)
  qed
qed

lemma for_each_result:
  "(for_each default_completed xs = Inl e) = (\<not> list_all element_ok xs \<and> e = TypeError)"
proof (cases "list_all element_ok xs")
  case True
  then show ?thesis using for_each_ok [of xs] by auto
next
  case False
  then show ?thesis using for_each_not_ok [of xs] by auto
qed

lemma contains_length: "contains n h \<Longrightarrow> length n \<le> length h"
  by (induction h) (auto dest: prefix_length_le)

lemma lead_len_le: "lead_len c \<le> 4"
  by (simp add: lead_len_def Let_def)

lemma code_points_short: "c \<in> set (code_points t) \<Longrightarrow> length c \<le> 4"
proof (induction t rule: code_points.induct)
  case 1
  then show ?case by simp
next
  case (2 c cs)
  then show ?case
    using lead_len_le [of c] by auto
qed

lemma element_ok_code_point: "c \<in> set (code_points t) \<Longrightarrow> \<not> element_ok (PStr c)"
  using code_points_short [of c t] contains_length [of "''completed''" c] by auto

lemma list_all_code_points:
  "list_all element_ok (map PStr (code_points t)) = (t = [])"
proof (cases t)
  case Nil
  then show ?thesis by simp
next
  case (Cons c cs)
  then have "c # take (lead_len c - 1) cs \<in> set (code_points t)"
    by simp
  then have "\<not> element_ok (PStr (c # take (lead_len c - 1) cs))"
    by (rule element_ok_code_point)
  then show ?thesis
    using Cons by (simp del: element_ok.simps)
qed

lemma list_all_keys:
  "list_all element_ok (map (\<lambda>kv. PStr (fst kv)) kvs) =
     list_all (\<lambda>kv. contains ''completed'' (fst kv)) kvs"
  by (induction kvs) simp_all

lemma load_loop_result:
  "(load_loop data = Inl e) = (\<not> loadable data \<and> e = TypeError)"
proof (cases data)
  case (PList xs)
  then show ?thesis
    using for_each_result [of xs e]
    by (auto simp: load_loop_def split: sum.splits)
next
  case (PDict kvs)
  then show ?thesis
    using for_each_result [of "map (\<lambda>kv. PStr (fst kv)) kvs" e]
    by (auto simp: load_loop_def list_all_keys split: sum.splits)
next
  case (PStr t)
  then show ?thesis
    using for_each_result [of "map PStr (code_points t)" e]
    by (auto simp: load_loop_def list_all_code_points split: sum.splits)
qed (auto simp: load_loop_def)

text \<open>
  C6, as the code has it. \<^verbatim>\<open>load\<close> raises in exactly two situations, and the exception
  propagates: the file is present and its text is not JSON (\<^verbatim>\<open>JSONDecodeError\<close>, the
  specification's Malformed), or the text is JSON that the defaulting loop cannot walk
  (\<^verbatim>\<open>TypeError\<close>). With the file present and holding an array of objects, \<^verbatim>\<open>load\<close> returns
  the stored sequence, \<^verbatim>\<open>completed\<close> defaulted, and no error.
\<close>

theorem load_raises_iff:
  "(fst (ReminderManager_load f) = Inl e) =
     (f = Corrupt \<and> e = JSONDecodeError
      \<or> (\<exists>data. f = Holds data \<and> \<not> loadable data \<and> e = TypeError))
   \<and> ReminderManager_load (Holds (PList (map PDict ds))) =
       (Inr (PList (map (\<lambda>d. PDict (with_completed d)) ds)), Holds (PList (map PDict ds)))"
proof
  show "(fst (ReminderManager_load f) = Inl e) =
     (f = Corrupt \<and> e = JSONDecodeError
      \<or> (\<exists>data. f = Holds data \<and> \<not> loadable data \<and> e = TypeError))"
    by (cases f) (auto simp: ReminderManager_load_def load_loop_result)
  show "ReminderManager_load (Holds (PList (map PDict ds))) =
       (Inr (PList (map (\<lambda>d. PDict (with_completed d)) ds)), Holds (PList (map PDict ds)))"
    by (rule load_dicts)
qed

text \<open>
  The claim as the specification words it ties the error to text that is not valid
  structured data. The file \<^verbatim>\<open>[1]\<close> is valid JSON and \<^verbatim>\<open>load\<close> raises on it; the file
  \<^verbatim>\<open>{}\<close> holds no sequence of reminders and \<^verbatim>\<open>load\<close> returns it without complaint.
\<close>

theorem load_raises_on_parseable_file:
  "fst (ReminderManager_load (Holds (PList [PNum 1]))) = Inl TypeError
   \<and> fst (ReminderManager_load (Holds (PDict []))) = Inr (PDict [])"
  by (simp add: ReminderManager_load_def load_loop_def default_completed_def)

subsection \<open>Due reminders\<close>

text \<open>The two formats on the texts of the examples.\<close>

lemmas parse_defs =
  strptime_date_def strptime_datetime_def match_date_def re_Y_def re_m_def re_d_def re_H_def
  re_M_def directive_def int_of_group_def decimal_digit_def utf8_head_def lead_len_def
  literal_def digits_def nonzero_def digit_val_def valid_date_def days_in_month_def is_leap_def
  spaces_def lstrip_def whitespace_def strip_leading.simps Let_def

lemma strptime_examples:
  "strptime_datetime zeros ''2024-01-01 09:00'' =
     Some \<lparr>year = 2024, month = 1, day = 1, hour = 9, minute = 0, second = 0, microsecond = 0\<rparr>"
  "strptime_datetime zeros ''2099-01-01 09:00'' =
     Some \<lparr>year = 2099, month = 1, day = 1, hour = 9, minute = 0, second = 0, microsecond = 0\<rparr>"
  "strptime_datetime zeros ''2024-01-01'' = None"
  "strptime_date zeros ''2024-01-01'' =
     Some \<lparr>year = 2024, month = 1, day = 1, hour = 0, minute = 0, second = 0, microsecond = 0\<rparr>"
  "strptime_datetime zeros ''not-a-date'' = None"
  "strptime_date zeros ''not-a-date'' = None"
  by (simp_all add: parse_defs)

lemma strptime_arabic_indic:
  "strptime_datetime unicode_14_zeros (arabic_indic_2024 @ ''-01-01'') = None"
  "strptime_date unicode_14_zeros (arabic_indic_2024 @ ''-01-01'') =
     Some \<lparr>year = 2024, month = 1, day = 1, hour = 0, minute = 0, second = 0, microsecond = 0\<rparr>"
  by (simp_all add: parse_defs arabic_indic_2024_def unicode_14_zeros_def)

lemma check_task_reminder:
  "check_task zeros now (reminder_dict (defaulted r)) ns =
     Inr (if incomplete r \<and> due zeros now (time r) then ns @ [PStr (task r)] else ns)"
  by (cases "completed r")
    (auto simp: check_task_def reminder_dict_def reminder_fields_def defaulted_def incomplete_def
      due_def try_datetime_def try_date_def split: option.splits)

lemma check_loop_reminders:
  "check_loop zeros now (map (\<lambda>r. reminder_dict (defaulted r)) rs) ns =
     Inr (ns @ map PStr (dueNow zeros now rs))"
  by (induction rs arbitrary: ns) (simp_all add: check_task_reminder dueNow_def)

lemma dueNow_completed: "dueNow zeros now (filter (\<lambda>r. completed r = Some True) rs) = []"
  by (induction rs) (simp_all add: dueNow_def incomplete_def)

text \<open>
  C1. For every table \<open>zeros\<close> of decimal digits, every stored list of reminders and every
  instant \<open>now\<close>, \<^verbatim>\<open>check_reminders\<close> returns exactly the task texts, in stored order, of the
  incomplete reminders that are due (date and time not after \<open>now\<close>, or else date not after
  the date of \<open>now\<close>), and leaves the file as it was. A store that holds completed
  reminders only has nothing due, whatever their times.
\<close>

theorem check_reminders_returns_due:
  "ReminderManager_check_reminders zeros now (Holds (PList (map reminder_dict rs))) =
     (Inr (map PStr (dueNow zeros now rs)), Holds (PList (map reminder_dict rs)))
   \<and> fst (ReminderManager_check_reminders zeros now
            (Holds (PList (map reminder_dict (filter (\<lambda>r. completed r = Some True) rs))))) =
       Inr []"
  by (simp add: ReminderManager_check_reminders_def load_reminders check_loop_reminders
      dueNow_completed)

text \<open>
  The example of the specification, with the digits of Unicode 14.0: four reminders seen
  on 2024-06-01 at 00:00. The first and the third are due, the second lies in the future,
  the fourth has no readable time. A fifth reminder dated 2024-01-01 with the year in
  Arabic-Indic digits is read as that date, and is due.
\<close>

theorem check_reminders_returns_due_example:
  "fst (ReminderManager_check_reminders unicode_14_zeros
          \<lparr>year = 2024, month = 6, day = 1, hour = 0, minute = 0, second = 0, microsecond = 0\<rparr>
          (Holds (PList (map reminder_dict
             [\<lparr>task = ''first'', time = ''2024-01-01 09:00'', completed = Some False\<rparr>,
              \<lparr>task = ''second'', time = ''2099-01-01 09:00'', completed = Some False\<rparr>,
              \<lparr>task = ''third'', time = ''2024-01-01'', completed = Some False\<rparr>,
              \<lparr>task = ''fourth'', time = ''not-a-date'', completed = Some False\<rparr>,
              \<lparr>task = ''fifth'', time = arabic_indic_2024 @ ''-01-01'', completed = Some False\<rparr>])))) =
     Inr [PStr ''first'', PStr ''third'', PStr ''fifth'']"
proof -
  have "dueNow unicode_14_zeros
          \<lparr>year = 2024, month = 6, day = 1, hour = 0, minute = 0, second = 0, microsecond = 0\<rparr>
          [\<lparr>task = ''first'', time = ''2024-01-01 09:00'', completed = Some False\<rparr>,
           \<lparr>task = ''second'', time = ''2099-01-01 09:00'', completed = Some False\<rparr>,
           \<lparr>task = ''third'', time = ''2024-01-01'', completed = Some False\<rparr>,
           \<lparr>task = ''fourth'', time = ''not-a-date'', completed = Some False\<rparr>,
           \<lparr>task = ''fifth'', time = arabic_indic_2024 @ ''-01-01'', completed = Some False\<rparr>] =
        [''first'', ''third'', ''fifth'']"
    by (simp add: dueNow_def due_def incomplete_def strptime_examples strptime_arabic_indic
        datetime_le_def date_le_def)
  then show ?thesis
    using check_reminders_returns_due
      [of unicode_14_zeros
          "\<lparr>year = 2024, month = 6, day = 1, hour = 0, minute = 0, second = 0, microsecond = 0\<rparr>"
          "[\<lparr>task = ''first'', time = ''2024-01-01 09:00'', completed = Some False\<rparr>,
            \<lparr>task = ''second'', time = ''2099-01-01 09:00'', completed = Some False\<rparr>,
            \<lparr>task = ''third'', time = ''2024-01-01'', completed = Some False\<rparr>,
            \<lparr>task = ''fourth'', time = ''not-a-date'', completed = Some False\<rparr>,
            \<lparr>task = ''fifth'', time = arabic_indic_2024 @ ''-01-01'', completed = Some False\<rparr>]"]
    by simp
qed

subsection \<open>Times that cannot be read\<close>

lemma completed_key: "''completed'' \<in> set (map fst (with_completed d))"
  by (simp add: with_completed_def)

lemma getitem_present:
  "k \<in> set (map fst d) \<Longrightarrow> \<exists>v. py_getitem (PDict d) k = Inr v"
  by (cases "map_of d k") (auto simp: map_of_eq_None_iff)

lemma check_task_returns:
  assumes "''completed'' \<in> set (map fst d)"
  shows "\<exists>ns'. check_task zeros now (PDict d) ns = Inr ns'"
proof -
  obtain c where "py_getitem (PDict d) ''completed'' = Inr c"
    using getitem_present [OF assms] by blast
  then show ?thesis
    by (simp add: check_task_def split: sum.splits)
qed

lemma map_of_with_completed: "map_of (with_completed d) ''time'' = map_of d ''time''"
  by (cases "map_of d ''time''") (simp_all add: with_completed_def map_add_def)

lemma check_task_unreadable:
  assumes "unreadable_time zeros d"
  shows "check_task zeros now (PDict (with_completed d)) ns = Inr ns"
proof -
  obtain t where t: "map_of d ''time'' = Some (PStr t)" and u: "unparseable zeros t"
    using assms by (auto simp: unreadable_time_def split: option.splits pyval.splits)
  have "try_datetime zeros now (PDict (with_completed d)) ns = Inl ValueError"
    using t u by (simp add: try_datetime_def map_of_with_completed unparseable_def)
  moreover have "try_date zeros now (PDict (with_completed d)) ns = Inl ValueError"
    using t u by (simp add: try_date_def map_of_with_completed unparseable_def)
  ultimately show ?thesis
    using check_task_returns [OF completed_key, of zeros now d ns]
    by (auto simp: check_task_def split: sum.splits if_splits)
qed

lemma check_loop_returns:
  "\<exists>ns'. check_loop zeros now (map (\<lambda>d. PDict (with_completed d)) ds) ns = Inr ns'"
proof (induction ds arbitrary: ns)
  case Nil
  then show ?case by simp
next
  case (Cons d ds)
  obtain ns1 where "check_task zeros now (PDict (with_completed d)) ns = Inr ns1"
    using check_task_returns [OF completed_key] by blast
  then show ?case
    using Cons [of ns1] by simp
qed

lemma check_loop_skips:
  "check_loop zeros now
     (map (\<lambda>d. PDict (with_completed d)) (filter (\<lambda>d. \<not> unreadable_time zeros d) ds)) ns =
   check_loop zeros now (map (\<lambda>d. PDict (with_completed d)) ds) ns"
proof (induction ds arbitrary: ns)
  case Nil
  then show ?case by simp
next
  case (Cons d ds)
  show ?case
  proof (cases "unreadable_time zeros d")
    case True
    then show ?thesis
      using Cons [of ns] by (simp add: check_task_unreadable)
  next
    case False
    then show ?thesis
      using Cons by (simp split: sum.splits)
  qed
qed

lemma check_reminders_dicts:
  "fst (ReminderManager_check_reminders zeros now (Holds (PList (map PDict ds)))) =
     check_loop zeros now (map (\<lambda>d. PDict (with_completed d)) ds) []"
  by (simp add: ReminderManager_check_reminders_def load_dicts)

text \<open>
  C7. On a store holding any list of objects, and for every table \<open>zeros\<close> of decimal
  digits, \<^verbatim>\<open>check_reminders\<close> returns without an exception, and the objects whose time is
  a text that neither \<^verbatim>\<open>%Y-%m-%d %H:%M\<close> nor \<^verbatim>\<open>%Y-%m-%d\<close> reads contribute nothing: the result
  is that of the store without them.
\<close>

theorem unparseable_time_is_skipped:
  "\<exists>ns. fst (ReminderManager_check_reminders zeros now (Holds (PList (map PDict ds)))) = Inr ns
        \<and> fst (ReminderManager_check_reminders zeros now
                 (Holds (PList (map PDict (filter (\<lambda>d. \<not> unreadable_time zeros d) ds))))) =
            Inr ns"
  using check_loop_returns [of zeros now ds "[]"]
  by (simp add: check_reminders_dicts check_loop_skips)

text \<open>
  The unreadable record of the specification's example, next to a record that is read:
  its year is written in Arabic-Indic digits.
\<close>

theorem unparseable_time_is_skipped_example:
  "fst (ReminderManager_check_reminders unicode_14_zeros
          \<lparr>year = 2024, month = 6, day = 1, hour = 0, minute = 0, second = 0, microsecond = 0\<rparr>
          (Holds (PList (map PDict
             [[(''task'', PStr ''fourth''), (''time'', PStr ''not-a-date''), (''completed'', PBool False)],
              [(''task'', PStr ''fifth''), (''time'', PStr (arabic_indic_2024 @ ''-01-01''))]])))) =
   fst (ReminderManager_check_reminders unicode_14_zeros
          \<lparr>year = 2024, month = 6, day = 1, hour = 0, minute = 0, second = 0, microsecond = 0\<rparr>
          (Holds (PList (map PDict
             [[(''task'', PStr ''fifth''), (''time'', PStr (arabic_indic_2024 @ ''-01-01''))]]))))"
proof -
  have "unreadable_time unicode_14_zeros
          [(''task'', PStr ''fourth''), (''time'', PStr ''not-a-date''), (''completed'', PBool False)]"
    by (simp add: unreadable_time_def unparseable_def strptime_examples)
  moreover have "\<not> unreadable_time unicode_14_zeros
          [(''task'', PStr ''fifth''), (''time'', PStr (arabic_indic_2024 @ ''-01-01''))]"
    by (simp add: unreadable_time_def unparseable_def strptime_arabic_indic)
  ultimately show ?thesis
    using unparseable_time_is_skipped
      [of unicode_14_zeros
          "\<lparr>year = 2024, month = 6, day = 1, hour = 0, minute = 0, second = 0, microsecond = 0\<rparr>"
          "[[(''task'', PStr ''fourth''), (''time'', PStr ''not-a-date''), (''completed'', PBool False)],
            [(''task'', PStr ''fifth''), (''time'', PStr (arabic_indic_2024 @ ''-01-01''))]]"]
    by auto
qed

section \<open>Properties of the expense store\<close>

subsection \<open>Spending insights\<close>






















subsection \<open>Adding an expense\<close>

lemma py_float_error: "py_float parse_float amount = Inl e \<Longrightarrow> e = ValueError \<or> e = TypeError"
  by (cases amount) (auto split: option.splits)

text \<open>
  C5, as the code has it. \<^verbatim>\<open>add\<close> with an amount that \<^verbatim>\<open>float\<close> rejects always fails and
  never writes: the file comes back as it was. When the file is absent or readable, the
  exception is the one \<^verbatim>\<open>float\<close> raised (\<^verbatim>\<open>ValueError\<close> for a text that is no number,
  \<^verbatim>\<open>TypeError\<close> for a value that is neither text nor number). When the file is present
  and unreadable, \<^verbatim>\<open>load\<close> runs first and its exception is the one that propagates.
\<close>

theorem add_rejects_bad_amount:
  assumes "py_float parse_float amount = Inl e"
  shows "ExpenseManager_add parse_float item amount date_str f =
           (Inl (if f = Corrupt then ParserError else e), f)
         \<and> (e = ValueError \<or> e = TypeError)"
  using assms py_float_error [OF assms]
  by (cases f) (simp_all add: ExpenseManager_add_def ExpenseManager_load_def)

text \<open>The amount \<^verbatim>\<open>"abc"\<close> on a table of one row.\<close>

theorem add_rejects_bad_amount_example:
  "ExpenseManager_add (\<lambda>t. if t = ''12.5'' then Some (25 / 2) else None)
     ''Tea'' (PStr ''abc'') ''2024-01-01''
     (Holds [\<lparr>Item = ''Lunch'', Amount = 150, Date = ''2024-01-02''\<rparr>]) =
   (Inl ValueError, Holds [\<lparr>Item = ''Lunch'', Amount = 150, Date = ''2024-01-02''\<rparr>])"
proof -
  have "py_float (\<lambda>t. if t = ''12.5'' then Some (25 / 2) else None) (PStr ''abc'') = Inl ValueError"
    by simp
  from add_rejects_bad_amount [OF this] show ?thesis
    by simp
qed

text \<open>
  The same call on a file that \<^verbatim>\<open>pd.read_csv\<close> rejects (an empty file, for one): the
  amount is not numeric, and the exception is the reader's, not the amount's.
\<close>

theorem add_on_unreadable_file:
  "py_float (\<lambda>t. if t = ''12.5'' then Some (25 / 2) else None) (PStr ''abc'') = Inl ValueError
   \<and> ExpenseManager_add (\<lambda>t. if t = ''12.5'' then Some (25 / 2) else None)
         ''Tea'' (PStr ''abc'') ''2024-01-01'' Corrupt =
       (Inl ParserError, Corrupt)"
  by (simp add: ExpenseManager_add_def ExpenseManager_load_def)

section \<open>Properties of the weather lookups\<close>

text \<open>
  The dashboard page answers every response: whatever the provider returned or the
  request raised, the page shows nothing, one of its two messages, or the three readings.
  A status other than 200 gives the message \<^verbatim>\<open>City not found\<close>.
\<close>

lemma show_weather_not_200:
  assumes "py_get r ''cod'' = Inr cod" "cod \<noteq> PNum 200"
  shows "show_weather True (PStr (k # key)) (Inr r) = [Error ''City not found'']"
  using assms by (simp add: show_weather_def weather_try_def)

lemma show_weather_never_raises:
  "show_weather button api_key response = []
   \<or> show_weather button api_key response = [Error ''Weather service unavailable'']
   \<or> show_weather button api_key response = [Error ''City not found'']
   \<or> (\<exists>temp humidity condition.
         show_weather button api_key response =
           [Metric ''Temperature'' [temp, PStr (degree @ ''C'')],
            Metric ''Humidity'' [humidity, PStr ''%''],
            Write (''**Condition:** '' @ condition)])"
  by (auto simp: show_weather_def weather_try_def split: sum.splits)

text \<open>
  The morning brief prints its message for a status other than 200 and then runs on into
  the statements that read \<^verbatim>\<open>condition\<close>, which only the other branch binds: the run ends
  in a \<^verbatim>\<open>NameError\<close>, for every such response.
\<close>

lemma morning_brief_not_200:
  assumes "py_get weather_data ''cod'' = Inr cod" "cod \<noteq> PNum 200"
  shows "morning_brief_weather weather_data =
           ([[PStr ''City not found! Please check spelling.'']], Inl NameError)"
  using assms
  by (simp add: morning_brief_weather_def weather_branch_def weather_report_def read_var_def)

text \<open>
  C10. The provider's answer for an unknown city, status \<^verbatim>\<open>"404"\<close>: the script prints the
  fallback message and then stops with an unhandled \<^verbatim>\<open>NameError\<close>.
\<close>

theorem morning_brief_fallback_then_NameError:
  "morning_brief_weather (PDict [(''cod'', PStr ''404''), (''message'', PStr ''city not found'')]) =
     ([[PStr ''City not found! Please check spelling.'']], Inl NameError)"
  by (simp add: morning_brief_weather_def weather_branch_def weather_report_def read_var_def)

end
